theory Spec2Isabelle
  imports Main "HOL-Library.Word"
begin

section \<open>The RTSP session of components/rtsp/include/rtsp_session.hpp\<close>

text \<open>
  The class \<open>espp::RtspSession\<close> is embedded function by function. Strings and string
  views are byte lists, \<open>size_t\<close> is the 32-bit unsigned integer of the ESP32 targets
  (\<open>esp_random.h\<close>), \<open>int\<close> values are mathematical integers that \<open>std::stoi\<close> keeps
  inside the 32-bit range, and every exception the C++ can throw is a value of
  \<open>exn\<close> returned on the left of a sum. The members \<open>closed_\<close>, \<open>session_active_\<close>,
  \<open>client_rtp_port_\<close> and the others are the record fields of the same name without
  the trailing underscore.
\<close>

subsection \<open>Exceptions\<close>

datatype exn = invalid_argument | out_of_range | null_dereference

text \<open>
  An exception thrown by a call leaves the calling function at once: \<open>propagate m f\<close>
  runs \<open>f\<close> on the value of \<open>m\<close>, and is the exception of \<open>m\<close> when it threw.
\<close>

definition propagate :: "exn + 'a \<Rightarrow> ('a \<Rightarrow> exn + 'b) \<Rightarrow> exn + 'b" where
  "propagate m f = (case m of Inl e \<Rightarrow> Inl e | Inr v \<Rightarrow> f v)"

subsection \<open>std::string_view: find and substr\<close>

type_synonym size_t = "32 word"

definition npos :: size_t where
  "npos = - 1"

definition CR :: char where
  "CR = CHR 0x0D"

definition LF :: char where
  "LF = CHR 0x0A"

definition CRLF :: string where
  "CRLF = [CR, LF]"

text \<open>Offset of the first occurrence of a byte in a byte list.\<close>

primrec index_of_char :: "char \<Rightarrow> string \<Rightarrow> nat option" where
  "index_of_char c [] = None"
| "index_of_char c (x # xs) =
     (if x = c then Some 0 else map_option Suc (index_of_char c xs))"

primrec starts_with :: "string \<Rightarrow> string \<Rightarrow> bool" where
  "starts_with s [] = True"
| "starts_with s (p # ps) = (case s of [] \<Rightarrow> False | x # xs \<Rightarrow> x = p \<and> starts_with xs ps)"

text \<open>Offset of the first occurrence of a pattern in a byte list.\<close>

primrec index_of_str :: "string \<Rightarrow> string \<Rightarrow> nat option" where
  "index_of_str pat [] = (if pat = [] then Some 0 else None)"
| "index_of_str pat (x # xs) =
     (if starts_with (x # xs) pat then Some 0 else map_option Suc (index_of_str pat xs))"

text \<open>
  \<open>sv.find(c, pos)\<close>: the first index at or after \<open>pos\<close> holding \<open>c\<close>, and \<open>npos\<close>
  when there is none or \<open>pos\<close> is not below the size.
\<close>

definition find_char :: "string \<Rightarrow> char \<Rightarrow> size_t \<Rightarrow> size_t" where
  "find_char s c pos =
     (if length s \<le> unat pos then npos
      else case index_of_char c (drop (unat pos) s) of
             None \<Rightarrow> npos
           | Some i \<Rightarrow> of_nat (unat pos + i))"

text \<open>\<open>sv.find(pat, pos)\<close> for a pattern; \<open>npos\<close> when \<open>pos\<close> is beyond the size.\<close>

definition find_str :: "string \<Rightarrow> string \<Rightarrow> size_t \<Rightarrow> size_t" where
  "find_str s pat pos =
     (if length s < unat pos then npos
      else case index_of_str pat (drop (unat pos) s) of
             None \<Rightarrow> npos
           | Some i \<Rightarrow> of_nat (unat pos + i))"

text \<open>
  \<open>sv.substr(pos, count)\<close>: throws \<open>std::out_of_range\<close> when \<open>pos\<close> is beyond the size,
  and otherwise yields the \<open>min count (size - pos)\<close> bytes from \<open>pos\<close>.
\<close>

definition substr :: "string \<Rightarrow> size_t \<Rightarrow> size_t \<Rightarrow> exn + string" where
  "substr s pos count =
     (if length s < unat pos then Inl out_of_range
      else Inr (take (min (unat count) (length s - unat pos)) (drop (unat pos) s)))"

subsection \<open>std::stoi and std::to_string\<close>

definition isspace :: "char \<Rightarrow> bool" where
  "isspace c \<longleftrightarrow> c \<in> {CHR '' '', CHR 0x09, CHR 0x0A, CHR 0x0B, CHR 0x0C, CHR 0x0D}"

definition isdigit :: "char \<Rightarrow> bool" where
  "isdigit c \<longleftrightarrow> c \<in> set ''0123456789''"

definition digit_value :: "char \<Rightarrow> int" where
  "digit_value c = int (of_char c) - 48"

text \<open>The value of a run of decimal digits, most significant first.\<close>

definition digits_value :: "string \<Rightarrow> int" where
  "digits_value ds = foldl (\<lambda>acc d. 10 * acc + digit_value d) 0 ds"

text \<open>
  \<open>std::stoi(str)\<close> in base 10: leading white space is skipped, one sign is accepted,
  the longest run of digits is converted and what follows it is ignored. No digit
  throws \<open>std::invalid_argument\<close>; a value outside \<open>int\<close> throws \<open>std::out_of_range\<close>.
\<close>

definition stoi :: "string \<Rightarrow> exn + int" where
  "stoi str =
     (let s1 = dropWhile isspace str;
          neg = (s1 \<noteq> [] \<and> hd s1 = CHR ''-'');
          s2 = (if s1 \<noteq> [] \<and> (hd s1 = CHR ''-'' \<or> hd s1 = CHR ''+'') then tl s1 else s1);
          ds = takeWhile isdigit s2;
          v = (if neg then - digits_value ds else digits_value ds)
      in if ds = [] then Inl invalid_argument
         else if v < - (2 ^ 31) \<or> 2 ^ 31 - 1 < v then Inl out_of_range
         else Inr v)"

definition digit_char :: "nat \<Rightarrow> char" where
  "digit_char d = ''0123456789'' ! d"

fun nat_to_string :: "nat \<Rightarrow> string" where
  "nat_to_string n =
     (if n < 10 then [digit_char n] else nat_to_string (n div 10) @ [digit_char (n mod 10)])"

declare nat_to_string.simps [simp del]

text \<open>\<open>std::to_string\<close> of an \<open>int\<close>, of a \<open>uint32_t\<close> and of a size.\<close>

definition to_string :: "int \<Rightarrow> string" where
  "to_string i = (if i < 0 then CHR ''-'' # nat_to_string (nat (- i)) else nat_to_string (nat i))"

definition to_string_u32 :: "32 word \<Rightarrow> string" where
  "to_string_u32 w = nat_to_string (unat w)"

subsection \<open>Sockets\<close>

text \<open>
  Modelled from the spec: \<open>TcpSocket\<close> (tcp_socket.hpp) and \<open>UdpSocket\<close>
  (udp_socket.hpp) are not part of the sources at hand. A control stream is what the
  session can observe of it: whether it is connected, the segments \<open>receive\<close> will
  deliver, the responses handed to \<open>transmit\<close> so far and the result \<open>transmit\<close>
  reports. A datagram endpoint is the datagrams handed to \<open>send\<close>, each with its
  destination address and port, and the result \<open>send\<close> reports.
\<close>

record tcp_socket =
  connected :: bool
  rx :: "string list"
  tx :: "string list"
  tx_ok :: bool

record udp_socket =
  datagrams :: "(string \<times> string \<times> size_t) list"
  send_ok :: bool

definition transmit :: "tcp_socket \<Rightarrow> string \<Rightarrow> bool \<times> tcp_socket" where
  "transmit sock data = (tx_ok sock, sock\<lparr>tx := tx sock @ [data]\<rparr>)"

text \<open>
  \<open>receive(buffer, max)\<close> delivers at most \<open>max\<close> bytes of the next segment; with no
  segment left the peer has gone, the call fails and the stream is disconnected.
\<close>

definition receive :: "tcp_socket \<Rightarrow> nat \<Rightarrow> bool \<times> string \<times> tcp_socket" where
  "receive sock max_size =
     (case rx sock of
        [] \<Rightarrow> (False, [], sock\<lparr>connected := False\<rparr>)
      | seg # rest \<Rightarrow>
          (True, take max_size seg,
           sock\<lparr>rx := (if drop max_size seg = [] then rest else drop max_size seg # rest)\<rparr>))"

definition udp_send :: "udp_socket \<Rightarrow> string \<Rightarrow> string \<Rightarrow> size_t \<Rightarrow> bool \<times> udp_socket" where
  "udp_send sock data ip_address port =
     (send_ok sock, sock\<lparr>datagrams := datagrams sock @ [(data, ip_address, port)]\<rparr>)"

subsection \<open>The session\<close>

record rtsp_session =
  control_socket :: "tcp_socket option"
  rtp_socket :: udp_socket
  rtcp_socket :: udp_socket
  session_id :: "32 word"
  closed :: bool
  session_active :: bool
  server_address :: string
  rtsp_path :: string
  client_address :: string
  client_rtp_port :: int
  client_rtcp_port :: int

definition get_session_id :: "rtsp_session \<Rightarrow> 32 word" where
  "get_session_id s = session_id s"

definition is_closed :: "rtsp_session \<Rightarrow> bool" where
  "is_closed s = closed s"

definition is_connected :: "rtsp_session \<Rightarrow> bool" where
  "is_connected s = (case control_socket s of None \<Rightarrow> False | Some sock \<Rightarrow> connected sock)"

definition is_active :: "rtsp_session \<Rightarrow> bool" where
  "is_active s = session_active s"

definition play :: "rtsp_session \<Rightarrow> rtsp_session" where
  "play s = s\<lparr>session_active := True\<rparr>"

definition pause :: "rtsp_session \<Rightarrow> rtsp_session" where
  "pause s = s\<lparr>session_active := False\<rparr>"

definition teardown :: "rtsp_session \<Rightarrow> rtsp_session" where
  "teardown s = s\<lparr>session_active := False, closed := True\<rparr>"

subsection \<open>The media API\<close>

text \<open>An RTP or RTCP packet is the byte string its \<open>get_data()\<close> yields.\<close>

definition send_rtp_packet :: "rtsp_session \<Rightarrow> string \<Rightarrow> bool \<times> rtsp_session" where
  "send_rtp_packet s packet =
     (case udp_send (rtp_socket s) packet (client_address s) (word_of_int (client_rtp_port s)) of
        (ok, sock) \<Rightarrow> (ok, s\<lparr>rtp_socket := sock\<rparr>))"

definition send_rtcp_packet :: "rtsp_session \<Rightarrow> string \<Rightarrow> bool \<times> rtsp_session" where
  "send_rtcp_packet s packet =
     (case udp_send (rtcp_socket s) packet (client_address s) (word_of_int (client_rtcp_port s)) of
        (ok, sock) \<Rightarrow> (ok, s\<lparr>rtcp_socket := sock\<rparr>))"

subsection \<open>The response writer\<close>

text \<open>
  A handler returns what the C++ returns together with the session it leaves behind, or
  the exception that escaped it. The default arguments of \<open>send_response\<close>
  (\<open>sequence_number = -1\<close>, \<open>headers = ""\<close>, \<open>body = ""\<close>) are written out at each call.
\<close>

type_synonym handled = "exn + bool \<times> rtsp_session"

definition send_response ::
  "rtsp_session \<Rightarrow> int \<Rightarrow> string \<Rightarrow> int \<Rightarrow> string \<Rightarrow> string \<Rightarrow> handled" where
  "send_response s code message sequence_number headers body =
     (let response = ''RTSP/1.0 '' @ to_string code @ '' '' @ message @ CRLF;
          response = (if sequence_number \<noteq> - 1
                      then response @ ''CSeq: '' @ to_string sequence_number @ CRLF
                      else response);
          response = (if headers \<noteq> [] then response @ headers else response);
          response = (if body \<noteq> []
                      then response @ ''Content-Length: '' @ nat_to_string (length body) @ CRLF
                             @ CRLF @ body
                      else response @ CRLF)
      in case control_socket s of
           None \<Rightarrow> Inl null_dereference
         | Some sock \<Rightarrow>
             (case transmit sock response of
                (ok, sock') \<Rightarrow> Inr (ok, s\<lparr>control_socket := Some sock'\<rparr>)))"

subsection \<open>The request parsers\<close>

text \<open>
  \<open>parse_rtsp_command_sequence\<close>: \<open>Inr None\<close> is the C++ returning false,
  \<open>Inr (Some n)\<close> is it returning true with \<open>cseq = n\<close>.
\<close>

definition parse_rtsp_command_sequence :: "string \<Rightarrow> exn + int option" where
  "parse_rtsp_command_sequence request =
     (let cseq_index = find_str request ''CSeq: '' 0 in
      if cseq_index = npos then Inr None
      else let cseq_end_index = find_char request CR cseq_index in
      if cseq_end_index = npos then Inr None
      else propagate (substr request (cseq_index + 6) (cseq_end_index - cseq_index - 6))
             (\<lambda>cseq_str.
      if cseq_str = [] then Inr None
      else propagate (stoi cseq_str) (\<lambda>cseq. Inr (Some cseq))))"

definition parse_rtsp_path :: "string \<Rightarrow> exn + string" where
  "parse_rtsp_path request =
     substr request (find_char request CHR '' '' 0 + 1)
       (find_char request CHR '' '' (find_char request CHR '' '' 0 + 1)
          - find_char request CHR '' '' 0 - 1)"

text \<open>
  \<open>parse_rtsp_setup_request\<close>: \<open>None\<close> is the C++ returning false, \<open>Some (path, rtp, rtcp)\<close>
  is it returning true with the three output parameters. The session is returned too,
  since the TCP branch writes a response.
\<close>

definition parse_rtsp_setup_request ::
  "rtsp_session \<Rightarrow> string \<Rightarrow> exn + (string \<times> int \<times> int) option \<times> rtsp_session" where
  "parse_rtsp_setup_request s request =
     propagate (parse_rtsp_path request) (\<lambda>path.
     if path = [] then Inr (None, s)
     else let transport_index = find_str request ''Transport: '' 0 in
     if transport_index = npos then Inr (None, s)
     else let transport_end_index = find_char request CR transport_index in
     if transport_end_index = npos then Inr (None, s)
     else propagate (substr request (transport_index + 11)
                       (transport_end_index - transport_index - 11)) (\<lambda>transport.
     if transport = [] then Inr (None, s)
     else if find_str transport ''RTP/AVP/TCP'' 0 \<noteq> npos
     then propagate (send_response s 461 ''Unsupported Transport'' (- 1) [] [])
            (\<lambda>(ok, s'). Inr (None, s'))
     else let client_port_index = find_str request ''client_port='' 0;
              dash_index = find_char request CHR ''-'' client_port_index in
     propagate (substr request (client_port_index + 12)
                  (dash_index - client_port_index - 12)) (\<lambda>rtp_port.
     if rtp_port = [] then Inr (None, s)
     else propagate (substr request (dash_index + 1)
                       (find_char request CR client_port_index - dash_index - 1)) (\<lambda>rtcp_port.
     if rtcp_port = [] then Inr (None, s)
     else propagate (stoi rtp_port) (\<lambda>client_rtp_port'.
          propagate (stoi rtcp_port) (\<lambda>client_rtcp_port'.
          Inr (Some (path, client_rtp_port', client_rtcp_port'), s)))))))"

subsection \<open>The request handlers\<close>

definition handle_rtsp_invalid_request :: "rtsp_session \<Rightarrow> string \<Rightarrow> handled" where
  "handle_rtsp_invalid_request s request =
     (case parse_rtsp_command_sequence request of
        Inl e \<Rightarrow> Inl e
      | Inr None \<Rightarrow> send_response s 400 ''Bad Request'' (- 1) [] []
      | Inr (Some sequence_number) \<Rightarrow> send_response s 400 ''Bad Request'' sequence_number [] [])"

definition handle_rtsp_options :: "rtsp_session \<Rightarrow> string \<Rightarrow> handled" where
  "handle_rtsp_options s request =
     (case parse_rtsp_command_sequence request of
        Inl e \<Rightarrow> Inl e
      | Inr None \<Rightarrow> handle_rtsp_invalid_request s request
      | Inr (Some sequence_number) \<Rightarrow>
          send_response s 200 ''OK'' sequence_number
            (''Public: DESCRIBE, SETUP, TEARDOWN, PLAY, PAUSE'' @ CRLF) [])"

definition handle_rtsp_describe :: "rtsp_session \<Rightarrow> string \<Rightarrow> handled" where
  "handle_rtsp_describe s request =
     (case parse_rtsp_command_sequence request of
        Inl e \<Rightarrow> Inl e
      | Inr None \<Rightarrow> handle_rtsp_invalid_request s request
      | Inr (Some sequence_number) \<Rightarrow>
          (let full_path = ''rtsp://'' @ server_address s @ ''/'' @ rtsp_path s;
               body = ''v=0'' @ CRLF @
                      ''o=- '' @ to_string_u32 (session_id s) @ '' 1 IN IP4 '' @ server_address s
                        @ CRLF @
                      ''s=MJPEG Stream'' @ CRLF @
                      ''i=MJPEG Stream'' @ CRLF @
                      ''t=0 0'' @ CRLF @
                      ''a=control:'' @ full_path @ CRLF @
                      ''a=mimetype:string;'' @ [CHR 0x22] @ ''video/x-motion-jpeg'' @ [CHR 0x22]
                        @ CRLF @
                      ''m=video 0 RTP/AVP 26'' @ CRLF @
                      ''c=IN IP4 0.0.0.0'' @ CRLF @
                      ''b=AS:256'' @ CRLF @
                      ''a=control:'' @ full_path @ CRLF @
                      ''a=udp-only'' @ CRLF;
               headers = ''Content-Type: application/sdp'' @ CRLF @
                         ''Content-Base: '' @ full_path @ CRLF
           in send_response s 200 ''OK'' sequence_number headers body))"

definition handle_rtsp_setup :: "rtsp_session \<Rightarrow> string \<Rightarrow> handled" where
  "handle_rtsp_setup s request =
     (case parse_rtsp_setup_request s request of
        Inl e \<Rightarrow> Inl e
      | Inr (None, s') \<Rightarrow> Inr (False, s')
      | Inr (Some (path, client_rtp_port', client_rtcp_port'), s') \<Rightarrow>
          (case parse_rtsp_command_sequence request of
             Inl e \<Rightarrow> Inl e
           | Inr None \<Rightarrow> handle_rtsp_invalid_request s' request
           | Inr (Some sequence_number) \<Rightarrow>
               (let s'' = s'\<lparr>client_rtp_port := client_rtp_port',
                              client_rtcp_port := client_rtcp_port'\<rparr>;
                    headers = ''Session: '' @ to_string_u32 (session_id s'') @ CRLF @
                              ''Transport: RTP/AVP;unicast;client_port='' @
                              to_string client_rtp_port' @ ''-'' @ to_string client_rtcp_port'
                              @ CRLF
                in send_response s'' 200 ''OK'' sequence_number headers [])))"

definition handle_rtsp_play :: "rtsp_session \<Rightarrow> string \<Rightarrow> handled" where
  "handle_rtsp_play s request =
     (case parse_rtsp_command_sequence request of
        Inl e \<Rightarrow> Inl e
      | Inr None \<Rightarrow> handle_rtsp_invalid_request s request
      | Inr (Some sequence_number) \<Rightarrow>
          (let s' = play s;
               headers = ''Session: '' @ to_string_u32 (session_id s') @ CRLF @
                         ''Range: npt=0.000-'' @ CRLF
           in send_response s' 200 ''OK'' sequence_number headers []))"

definition handle_rtsp_pause :: "rtsp_session \<Rightarrow> string \<Rightarrow> handled" where
  "handle_rtsp_pause s request =
     (case parse_rtsp_command_sequence request of
        Inl e \<Rightarrow> Inl e
      | Inr None \<Rightarrow> handle_rtsp_invalid_request s request
      | Inr (Some sequence_number) \<Rightarrow>
          (let s' = pause s;
               headers = ''Session: '' @ to_string_u32 (session_id s') @ CRLF
           in send_response s' 200 ''OK'' sequence_number headers []))"

definition handle_rtsp_teardown :: "rtsp_session \<Rightarrow> string \<Rightarrow> handled" where
  "handle_rtsp_teardown s request =
     (case parse_rtsp_command_sequence request of
        Inl e \<Rightarrow> Inl e
      | Inr None \<Rightarrow> handle_rtsp_invalid_request s request
      | Inr (Some sequence_number) \<Rightarrow>
          (let s' = teardown s;
               headers = ''Session: '' @ to_string_u32 (session_id s') @ CRLF
           in send_response s' 200 ''OK'' sequence_number headers []))"

text \<open>
  \<open>handle_rtsp_request\<close>: the path and the version are cut out of the first line and not
  used; the three \<open>substr\<close> calls are kept because each could throw.
\<close>

definition handle_rtsp_request :: "rtsp_session \<Rightarrow> string \<Rightarrow> handled" where
  "handle_rtsp_request s request =
     (let first_space_index = find_char request CHR '' '' 0;
          second_space_index = find_char request CHR '' '' (first_space_index + 1);
          end_of_line_index = find_char request CR 0
      in if first_space_index = npos \<or> second_space_index = npos \<or> end_of_line_index = npos
         then handle_rtsp_invalid_request s request
         else
           propagate (substr request 0 first_space_index) (\<lambda>method.
           propagate (substr request (first_space_index + 1)
                        (second_space_index - first_space_index - 1)) (\<lambda>path.
           propagate (substr request (second_space_index + 1)
                        (end_of_line_index - second_space_index - 1)) (\<lambda>rtsp_version.
           propagate (substr request (end_of_line_index + 2) npos) (\<lambda>request_body.
             if method = ''OPTIONS'' then handle_rtsp_options s request_body
             else if method = ''DESCRIBE'' then handle_rtsp_describe s request_body
             else if method = ''SETUP'' then handle_rtsp_setup s request_body
             else if method = ''PLAY'' then handle_rtsp_play s request_body
             else if method = ''PAUSE'' then handle_rtsp_pause s request_body
             else if method = ''TEARDOWN'' then handle_rtsp_teardown s request_body
             else handle_rtsp_invalid_request s request_body)))))"

subsection \<open>The control reader step\<close>

definition max_request_size :: nat where
  "max_request_size = 1024"

text \<open>
  One call of \<open>control_task_fn\<close>; the boolean is true when the task is to stop. The result
  of \<open>handle_rtsp_request\<close> is only logged.
\<close>

definition control_task_fn :: "rtsp_session \<Rightarrow> handled" where
  "control_task_fn s =
     (if closed s then Inr (True, s)
      else case control_socket s of
        None \<Rightarrow> Inr (True, teardown s)
      | Some sock \<Rightarrow>
          if \<not> connected sock then Inr (True, teardown s)
          else case receive sock max_request_size of
            (received, buffer, sock') \<Rightarrow>
              (let s' = s\<lparr>control_socket := Some sock'\<rparr>
               in if received
                  then (case handle_rtsp_request s' buffer of
                          Inl e \<Rightarrow> Inl e
                        | Inr (ok, s'') \<Rightarrow> Inr (False, s''))
                  else Inr (False, s')))"

subsection \<open>Sessions and requests used as test vectors\<close>

definition example_socket :: tcp_socket where
  "example_socket = \<lparr>connected = True, rx = [], tx = [], tx_ok = True\<rparr>"

definition example_udp :: udp_socket where
  "example_udp = \<lparr>datagrams = [], send_ok = True\<rparr>"

text \<open>A session whose SETUP has completed and that is not playing.\<close>

definition example_session :: rtsp_session where
  "example_session =
     \<lparr>control_socket = Some example_socket, rtp_socket = example_udp, rtcp_socket = example_udp,
      session_id = 12345, closed = False, session_active = False,
      server_address = ''host'', rtsp_path = ''stream'', client_address = ''10.0.0.2'',
      client_rtp_port = 5000, client_rtcp_port = 5001\<rparr>"

text \<open>A closed session with a PLAY request still waiting in the control stream.\<close>

definition closed_session :: rtsp_session where
  "closed_session =
     example_session\<lparr>closed := True,
       control_socket := Some (example_socket\<lparr>rx :=
         [''PLAY rtsp://host/stream RTSP/1.0'' @ CRLF @ ''CSeq: 4'' @ CRLF @ CRLF]\<rparr>)\<rparr>"

text \<open>A playing session whose peer has disconnected, and one whose socket is gone.\<close>

definition disconnected_session :: rtsp_session where
  "disconnected_session =
     example_session\<lparr>session_active := True,
       control_socket := Some (example_socket\<lparr>connected := False\<rparr>)\<rparr>"

definition socketless_session :: rtsp_session where
  "socketless_session = example_session\<lparr>session_active := True, control_socket := None\<rparr>"

text \<open>
  The headers of the SETUP request of the spec's scenario 3, as \<open>handle_rtsp_request\<close>
  passes them on, and the same with the sequence number \<open>-1\<close>.
\<close>

definition setup_request_spec :: string where
  "setup_request_spec =
     ''CSeq: 3'' @ CRLF @ ''Transport: RTP/AVP;unicast;client_port=5000-5001'' @ CRLF @ CRLF"

definition setup_request_minus_one :: string where
  "setup_request_minus_one =
     ''CSeq: -1'' @ CRLF @ ''Transport: RTP/AVP;unicast;client_port=5000-5001'' @ CRLF @ CRLF"

text \<open>
  SETUP headers with \<open>client_port=\<close> in a User-Agent header that precedes the Transport
  header.
\<close>

definition setup_request_decoy :: string where
  "setup_request_decoy =
     ''CSeq: 3'' @ CRLF @ ''User-Agent: x;client_port=1-2'' @ CRLF @
     ''Transport: RTP/AVP;unicast;client_port=5000-5001'' @ CRLF @ CRLF"

text \<open>The example session before any SETUP: both client ports still 0.\<close>

definition fresh_session :: rtsp_session where
  "fresh_session = example_session\<lparr>client_rtp_port := 0, client_rtcp_port := 0\<rparr>"

text \<open>
  The headers of a SETUP request for TCP transport, as in the spec's scenario 4, and the
  same with two spaces after \<open>CSeq:\<close>.
\<close>

definition setup_request_tcp :: string where
  "setup_request_tcp =
     ''CSeq: 4'' @ CRLF @ ''Transport: RTP/AVP/TCP;unicast;interleaved=0-1'' @ CRLF @ CRLF"

definition setup_request_tcp_two_spaces :: string where
  "setup_request_tcp_two_spaces =
     ''CSeq:  4'' @ CRLF @ ''Transport: RTP/AVP/TCP;unicast;interleaved=0-1'' @ CRLF @ CRLF"

text \<open>
  Headers of SETUP requests whose Transport header is terminated by CR and that hold no
  \<open>client_port=\<close>.
\<close>

definition setup_request_no_client_port :: string where
  "setup_request_no_client_port =
     ''CSeq: 3'' @ CRLF @ ''Transport: RTP/AVP;unicast'' @ CRLF @ CRLF"

definition setup_request_stray_digits :: string where
  "setup_request_stray_digits =
     ''1 CSeq: 42 77'' @ CRLF @ ''Transport: RTP/AVP'' @ CRLF @ CRLF"





subsection \<open>The session description of the spec\<close>

text \<open>
  This definition follows the spec's words, not the source: the SDP lines of the spec's
  section 4.3 for a session id, a server address and an RTSP URL, in the order the spec
  lists them. It is what \<open>handle_rtsp_describe\<close> is compared with.
\<close>

definition spec_sdp_lines :: "string \<Rightarrow> string \<Rightarrow> string \<Rightarrow> string list" where
  "spec_sdp_lines sid addr path =
     [''v=0'',
      ''o=- '' @ sid @ '' 1 IN IP4 '' @ addr,
      ''s=MJPEG Stream'',
      ''i=MJPEG Stream'',
      ''t=0 0'',
      ''a=control:'' @ path,
      ''a=mimetype:string;'' @ [CHR 0x22] @ ''video/x-motion-jpeg'' @ [CHR 0x22],
      ''m=video 0 RTP/AVP 26'',
      ''c=IN IP4 0.0.0.0'',
      ''b=AS:256'',
      ''a=control:'' @ path,
      ''a=udp-only'']"

text \<open>Each line followed by CR LF, all concatenated.\<close>

definition crlf_terminated :: "string list \<Rightarrow> string" where
  "crlf_terminated ls = concat (map (\<lambda>l. l @ CRLF) ls)"

text \<open>The number of CR LF pairs of a text.\<close>

fun count_crlf :: "string \<Rightarrow> nat" where
  "count_crlf (a # b # cs) =
     (if a = CR \<and> b = LF then Suc (count_crlf cs) else count_crlf (b # cs))"
| "count_crlf cs = 0"

text \<open>The session description of the example session, written out.\<close>

definition example_sdp :: string where
  "example_sdp =
     ''v=0'' @ CRLF @
     ''o=- 12345 1 IN IP4 host'' @ CRLF @
     ''s=MJPEG Stream'' @ CRLF @
     ''i=MJPEG Stream'' @ CRLF @
     ''t=0 0'' @ CRLF @
     ''a=control:rtsp://host/stream'' @ CRLF @
     ''a=mimetype:string;'' @ [CHR 0x22] @ ''video/x-motion-jpeg'' @ [CHR 0x22] @ CRLF @
     ''m=video 0 RTP/AVP 26'' @ CRLF @
     ''c=IN IP4 0.0.0.0'' @ CRLF @
     ''b=AS:256'' @ CRLF @
     ''a=control:rtsp://host/stream'' @ CRLF @
     ''a=udp-only'' @ CRLF"

section \<open>Evaluation\<close>

lemma unat_minus_one_32 [simp]: "unat (- 1 :: 32 word) = 4294967295"
  by (simp add: unsigned_minus_1_eq_mask mask_eq_exp_minus_1)

lemmas string_defs = find_char_def find_str_def substr_def npos_def CR_def LF_def CRLF_def
  stoi_def isspace_def isdigit_def digit_value_def digits_value_def to_string_def
  to_string_u32_def nat_to_string.simps digit_char_def propagate_def Let_def

lemmas example_defs = example_session_def example_socket_def example_udp_def

lemma to_string_status_codes:
  "to_string 200 = ''200''" "to_string 400 = ''400''" "to_string 461 = ''461''"
  by (simp_all add: to_string_def nat_to_string.simps digit_char_def)

lemma example_session_socket: "control_socket example_session = Some example_socket"
  by (simp add: example_session_def)

lemma cseq_line_cases:
  "(if n \<noteq> - 1 then ''CSeq: '' @ to_string n @ CRLF else []) =
   (if n = - 1 then [] else ''CSeq: '' @ to_string n @ CRLF)"
  by simp

section \<open>The response writer\<close>

lemma send_response_transmits:
  "control_socket s = Some sock \<Longrightarrow>
   send_response s code phrase n headers body =
     Inr (tx_ok sock, s\<lparr>control_socket := Some (sock\<lparr>tx := tx sock @
       [''RTSP/1.0 '' @ to_string code @ '' '' @ phrase @ CRLF @
        (if n \<noteq> - 1 then ''CSeq: '' @ to_string n @ CRLF else []) @
        headers @
        (if body \<noteq> []
         then ''Content-Length: '' @ nat_to_string (length body) @ CRLF @ CRLF @ body
         else CRLF)]\<rparr>)\<rparr>)"
  by (simp add: send_response_def transmit_def Let_def)

lemma options_scenario:
  "handle_rtsp_request s
     (''OPTIONS rtsp://host/stream RTSP/1.0'' @ CRLF @ ''CSeq: 1'' @ CRLF @ CRLF) =
   send_response s 200 ''OK'' 1 (''Public: DESCRIBE, SETUP, TEARDOWN, PLAY, PAUSE'' @ CRLF) []"
  by (simp add: string_defs handle_rtsp_request_def handle_rtsp_options_def
      parse_rtsp_command_sequence_def)

text \<open>
  Claim C3. On a session with a control socket, \<open>send_response\<close> hands to \<open>transmit\<close>
  exactly the status line \<open>RTSP/1.0 <code> <phrase>\<close>, then \<open>CSeq: <n>\<close> when a sequence
  number is supplied (the C++ encodes "not supplied" as \<open>-1\<close>), then the caller's header
  block, then \<open>Content-Length\<close>, a blank line and the body when the body is not empty, and
  a lone blank line otherwise. The OPTIONS request of the spec with CSeq 1 is answered
  with exactly the response the spec gives.
\<close>

theorem send_response_format:
  "control_socket s = Some sock \<Longrightarrow>
   send_response s code phrase n headers body =
     Inr (tx_ok sock, s\<lparr>control_socket := Some (sock\<lparr>tx := tx sock @
       [''RTSP/1.0 '' @ to_string code @ '' '' @ phrase @ CRLF @
        (if n \<noteq> - 1 then ''CSeq: '' @ to_string n @ CRLF else []) @
        headers @
        (if body \<noteq> []
         then ''Content-Length: '' @ nat_to_string (length body) @ CRLF @ CRLF @ body
         else CRLF)]\<rparr>)\<rparr>) \<and>
   handle_rtsp_request s
     (''OPTIONS rtsp://host/stream RTSP/1.0'' @ CRLF @ ''CSeq: 1'' @ CRLF @ CRLF) =
     Inr (tx_ok sock, s\<lparr>control_socket := Some (sock\<lparr>tx := tx sock @
       [''RTSP/1.0 200 OK'' @ CRLF @ ''CSeq: 1'' @ CRLF @
        ''Public: DESCRIBE, SETUP, TEARDOWN, PLAY, PAUSE'' @ CRLF @ CRLF]\<rparr>)\<rparr>)"
proof
  assume sock: "control_socket s = Some sock"
  show "send_response s code phrase n headers body =
     Inr (tx_ok sock, s\<lparr>control_socket := Some (sock\<lparr>tx := tx sock @
       [''RTSP/1.0 '' @ to_string code @ '' '' @ phrase @ CRLF @
        (if n \<noteq> - 1 then ''CSeq: '' @ to_string n @ CRLF else []) @
        headers @
        (if body \<noteq> []
         then ''Content-Length: '' @ nat_to_string (length body) @ CRLF @ CRLF @ body
         else CRLF)]\<rparr>)\<rparr>)"
    by (rule send_response_transmits [OF sock])
next
  assume sock: "control_socket s = Some sock"
  show "handle_rtsp_request s
     (''OPTIONS rtsp://host/stream RTSP/1.0'' @ CRLF @ ''CSeq: 1'' @ CRLF @ CRLF) =
     Inr (tx_ok sock, s\<lparr>control_socket := Some (sock\<lparr>tx := tx sock @
       [''RTSP/1.0 200 OK'' @ CRLF @ ''CSeq: 1'' @ CRLF @
        ''Public: DESCRIBE, SETUP, TEARDOWN, PLAY, PAUSE'' @ CRLF @ CRLF]\<rparr>)\<rparr>)"
    unfolding options_scenario
    by (simp add: send_response_transmits [OF sock] to_string_def nat_to_string.simps
        digit_char_def CRLF_def)
qed

text \<open>
  Witness for C3: a 404 with sequence number 9, one header and a three-byte body on the
  example session, and the OPTIONS scenario on it.
\<close>

theorem send_response_format_witness:
  "control_socket example_session = Some example_socket \<and>
   send_response example_session 404 ''Not Found'' 9 (''Server: espp'' @ CRLF) ''abc'' =
     Inr (True, example_session\<lparr>control_socket := Some (example_socket\<lparr>tx :=
       [''RTSP/1.0 404 Not Found'' @ CRLF @ ''CSeq: 9'' @ CRLF @ ''Server: espp'' @ CRLF @
        ''Content-Length: 3'' @ CRLF @ CRLF @ ''abc'']\<rparr>)\<rparr>) \<and>
   handle_rtsp_request example_session
     (''OPTIONS rtsp://host/stream RTSP/1.0'' @ CRLF @ ''CSeq: 1'' @ CRLF @ CRLF) =
     Inr (True, example_session\<lparr>control_socket := Some (example_socket\<lparr>tx :=
       [''RTSP/1.0 200 OK'' @ CRLF @ ''CSeq: 1'' @ CRLF @
        ''Public: DESCRIBE, SETUP, TEARDOWN, PLAY, PAUSE'' @ CRLF @ CRLF]\<rparr>)\<rparr>)"
proof -
  have sock: "control_socket example_session = Some example_socket"
    by (simp add: example_session_def)
  show ?thesis
    using sock send_response_format [OF sock, of 404 "''Not Found''" 9 "''Server: espp'' @ CRLF" "''abc''"]
    by (simp add: to_string_def nat_to_string.simps digit_char_def CRLF_def example_socket_def)
qed

section \<open>The control reader step\<close>

text \<open>
  Claim C5. A call of \<open>control_task_fn\<close> on a closed session returns the stop signal and
  the session exactly as it was: nothing is received, nothing is transmitted, no field
  changes. On an open session whose control socket is absent or not connected it returns
  the stop signal and the session after \<open>teardown\<close>: closed, not active, the socket
  untouched, so nothing is transmitted; and every later call is again the first case.
\<close>

theorem control_task_fn_stops:
  "(closed s \<longrightarrow> control_task_fn s = Inr (True, s)) \<and>
   (\<not> closed s \<and>
    (control_socket s = None \<or> (\<exists>sock. control_socket s = Some sock \<and> \<not> connected sock)) \<longrightarrow>
      control_task_fn s = Inr (True, teardown s) \<and>
      is_closed (teardown s) \<and> \<not> is_active (teardown s) \<and>
      control_socket (teardown s) = control_socket s \<and>
      control_task_fn (teardown s) = Inr (True, teardown s))"
  by (auto simp: control_task_fn_def teardown_def is_closed_def is_active_def)

text \<open>
  Witness for C5: the closed session keeps its waiting PLAY request unanswered; the
  disconnected and the socketless session are torn down.
\<close>

theorem control_task_fn_stops_witness:
  "closed closed_session \<and>
   control_task_fn closed_session = Inr (True, closed_session) \<and>
   \<not> closed disconnected_session \<and>
   (\<exists>sock. control_socket disconnected_session = Some sock \<and> \<not> connected sock) \<and>
   control_task_fn disconnected_session =
     Inr (True, disconnected_session\<lparr>session_active := False, closed := True\<rparr>) \<and>
   \<not> closed socketless_session \<and> control_socket socketless_session = None \<and>
   control_task_fn socketless_session =
     Inr (True, socketless_session\<lparr>session_active := False, closed := True\<rparr>)"
proof -
  have c: "closed closed_session"
    by (simp add: closed_session_def)
  have d: "\<not> closed disconnected_session \<and>
      (\<exists>sock. control_socket disconnected_session = Some sock \<and> \<not> connected sock)"
    by (simp add: disconnected_session_def example_defs)
  have n: "\<not> closed socketless_session \<and> control_socket socketless_session = None"
    by (simp add: socketless_session_def example_defs)
  from c control_task_fn_stops [of closed_session]
  have 1: "control_task_fn closed_session = Inr (True, closed_session)"
    by blast
  from d control_task_fn_stops [of disconnected_session]
  have 2: "control_task_fn disconnected_session = Inr (True, teardown disconnected_session)"
    by blast
  from n control_task_fn_stops [of socketless_session]
  have 3: "control_task_fn socketless_session = Inr (True, teardown socketless_session)"
    by blast
  from c d n 1 2 3 show ?thesis
    by (simp add: teardown_def)
qed

section \<open>The session flags\<close>

text \<open>
  Claim C10. \<open>play\<close> sets the active flag whatever the state, and \<open>teardown\<close> does not
  latch it off: after \<open>teardown\<close> and then \<open>play\<close> the session is closed and active at
  once, and a PLAY request with a parseable CSeq handled on a torn-down session leaves
  it closed and active as well.
\<close>

theorem play_after_teardown:
  "is_active (play s) \<and> is_closed (teardown s) \<and>
   is_closed (play (teardown s)) \<and> is_active (play (teardown s)) \<and>
   (control_socket s = Some sock \<and> parse_rtsp_command_sequence request = Inr (Some n) \<longrightarrow>
      (\<exists>ok s'. handle_rtsp_play (teardown s) request = Inr (ok, s') \<and>
         is_closed s' \<and> is_active s'))"
  by (simp add: handle_rtsp_play_def play_def teardown_def is_closed_def is_active_def
      send_response_def transmit_def Let_def)

text \<open>Witness for C10: the example session and a PLAY with CSeq 4.\<close>

theorem play_after_teardown_witness:
  "control_socket example_session = Some example_socket \<and>
   parse_rtsp_command_sequence (''CSeq: 4'' @ CRLF @ CRLF) = Inr (Some 4) \<and>
   is_active (play example_session) \<and> is_closed (teardown example_session) \<and>
   is_closed (play (teardown example_session)) \<and>
   is_active (play (teardown example_session)) \<and>
   (\<exists>ok s'. handle_rtsp_play (teardown example_session) (''CSeq: 4'' @ CRLF @ CRLF) = Inr (ok, s') \<and>
      is_closed s' \<and> is_active s')"
proof -
  have h: "control_socket example_session = Some example_socket \<and>
      parse_rtsp_command_sequence (''CSeq: 4'' @ CRLF @ CRLF) = Inr (Some 4)"
    by (simp add: example_session_def parse_rtsp_command_sequence_def string_defs)
  with play_after_teardown [of example_session example_socket "''CSeq: 4'' @ CRLF @ CRLF" 4]
  show ?thesis
    by blast
qed

section \<open>The media API\<close>

text \<open>
  Claim C6, as stated, fails: on the example session, which is not active, and on the
  same session after \<open>teardown\<close>, \<open>send_rtp_packet\<close> and \<open>send_rtcp_packet\<close> hand the
  datagram to the socket, addressed to the client.
\<close>

theorem media_send_inactive_counterexample:
  "\<not> is_active example_session \<and>
   send_rtp_packet example_session ''frame'' =
     (True, example_session\<lparr>rtp_socket := example_udp\<lparr>datagrams :=
        [(''frame'', ''10.0.0.2'', 5000)]\<rparr>\<rparr>) \<and>
   is_closed (teardown example_session) \<and> \<not> is_active (teardown example_session) \<and>
   send_rtcp_packet (teardown example_session) ''report'' =
     (True, teardown example_session\<lparr>rtcp_socket := example_udp\<lparr>datagrams :=
        [(''report'', ''10.0.0.2'', 5001)]\<rparr>\<rparr>)"
  by (simp add: send_rtp_packet_def send_rtcp_packet_def udp_send_def is_active_def
      is_closed_def teardown_def example_defs)

text \<open>
  Claim C6, amended. \<open>send_rtp_packet\<close> and \<open>send_rtcp_packet\<close> do not read the active
  or the closed flag: on every session they hand the packet to the RTP, respectively
  RTCP, socket, addressed to the client address and the recorded RTP, respectively RTCP,
  port, return what the socket's \<open>send\<close> reports and change nothing else.
\<close>

theorem media_send_is_unguarded:
  "send_rtp_packet s packet =
     (send_ok (rtp_socket s),
      s\<lparr>rtp_socket := (rtp_socket s)\<lparr>datagrams := datagrams (rtp_socket s) @
         [(packet, client_address s, word_of_int (client_rtp_port s))]\<rparr>\<rparr>) \<and>
   send_rtcp_packet s packet =
     (send_ok (rtcp_socket s),
      s\<lparr>rtcp_socket := (rtcp_socket s)\<lparr>datagrams := datagrams (rtcp_socket s) @
         [(packet, client_address s, word_of_int (client_rtcp_port s))]\<rparr>\<rparr>)"
  by (simp add: send_rtp_packet_def send_rtcp_packet_def udp_send_def)

section \<open>SETUP\<close>

text \<open>
  Claim C1 is not met by the code. The SETUP of the spec's scenario 3 is answered as the
  spec says. But \<open>client_port=\<close> is searched in the whole header block and not in the
  value of the Transport header: with \<open>client_port=1-2\<close> in an earlier header and
  \<open>client_port=5000-5001\<close> in the Transport header, the session records the ports 1
  and 2 and echoes \<open>client_port=1-2\<close>. And \<open>CSeq: -1\<close> is read by \<open>std::stoi\<close> as
  \<open>-1\<close>, which \<open>send_response\<close> takes for "no sequence number": the 200 OK response
  carries no CSeq header.
\<close>

theorem handle_rtsp_setup_wrong_ports_and_cseq:
  "handle_rtsp_request fresh_session
     (''SETUP rtsp://host/stream RTSP/1.0'' @ CRLF @ setup_request_spec) =
     Inr (True, fresh_session\<lparr>client_rtp_port := 5000, client_rtcp_port := 5001,
       control_socket := Some (example_socket\<lparr>tx :=
         [''RTSP/1.0 200 OK'' @ CRLF @ ''CSeq: 3'' @ CRLF @ ''Session: 12345'' @ CRLF @
          ''Transport: RTP/AVP;unicast;client_port=5000-5001'' @ CRLF @ CRLF]\<rparr>)\<rparr>) \<and>
   find_str setup_request_decoy ''Transport: '' 0 = 40 \<and>
   find_char setup_request_decoy CR 40 = 88 \<and>
   substr setup_request_decoy (40 + 11) (88 - 40 - 11) =
     Inr ''RTP/AVP;unicast;client_port=5000-5001'' \<and>
   parse_rtsp_command_sequence setup_request_decoy = Inr (Some 3) \<and>
   handle_rtsp_request fresh_session
     (''SETUP rtsp://host/stream RTSP/1.0'' @ CRLF @ setup_request_decoy) =
     Inr (True, fresh_session\<lparr>client_rtp_port := 1, client_rtcp_port := 2,
       control_socket := Some (example_socket\<lparr>tx :=
         [''RTSP/1.0 200 OK'' @ CRLF @ ''CSeq: 3'' @ CRLF @ ''Session: 12345'' @ CRLF @
          ''Transport: RTP/AVP;unicast;client_port=1-2'' @ CRLF @ CRLF]\<rparr>)\<rparr>) \<and>
   parse_rtsp_setup_request fresh_session setup_request_minus_one =
     Inr (Some (''-1'' @ CRLF @ ''Transport:'', 5000, 5001), fresh_session) \<and>
   parse_rtsp_command_sequence setup_request_minus_one = Inr (Some (- 1)) \<and>
   handle_rtsp_request fresh_session
     (''SETUP rtsp://host/stream RTSP/1.0'' @ CRLF @ setup_request_minus_one) =
     Inr (True, fresh_session\<lparr>client_rtp_port := 5000, client_rtcp_port := 5001,
       control_socket := Some (example_socket\<lparr>tx :=
         [''RTSP/1.0 200 OK'' @ CRLF @ ''Session: 12345'' @ CRLF @
          ''Transport: RTP/AVP;unicast;client_port=5000-5001'' @ CRLF @ CRLF]\<rparr>)\<rparr>) \<and>
   find_str (''RTSP/1.0 200 OK'' @ CRLF @ ''Session: 12345'' @ CRLF @
        ''Transport: RTP/AVP;unicast;client_port=5000-5001'' @ CRLF @ CRLF) ''CSeq: '' 0 = npos"
proof -
  have spec_dispatch: "handle_rtsp_request fresh_session
      (''SETUP rtsp://host/stream RTSP/1.0'' @ CRLF @ setup_request_spec) =
      handle_rtsp_setup fresh_session setup_request_spec"
    by (simp add: handle_rtsp_request_def setup_request_spec_def string_defs)
  have decoy_dispatch: "handle_rtsp_request fresh_session
      (''SETUP rtsp://host/stream RTSP/1.0'' @ CRLF @ setup_request_decoy) =
      handle_rtsp_setup fresh_session setup_request_decoy"
    by (simp add: handle_rtsp_request_def setup_request_decoy_def string_defs)
  have minus_dispatch: "handle_rtsp_request fresh_session
      (''SETUP rtsp://host/stream RTSP/1.0'' @ CRLF @ setup_request_minus_one) =
      handle_rtsp_setup fresh_session setup_request_minus_one"
    by (simp add: handle_rtsp_request_def setup_request_minus_one_def string_defs)
  have spec_ports: "parse_rtsp_setup_request fresh_session setup_request_spec =
      Inr (Some (''3'' @ CRLF @ ''Transport:'', 5000, 5001), fresh_session)"
    by (simp add: setup_request_spec_def parse_rtsp_setup_request_def parse_rtsp_path_def
        string_defs)
  have spec_cseq: "parse_rtsp_command_sequence setup_request_spec = Inr (Some 3)"
    by (simp add: setup_request_spec_def parse_rtsp_command_sequence_def string_defs)
  have spec_handled: "handle_rtsp_setup fresh_session setup_request_spec =
     Inr (True, fresh_session\<lparr>client_rtp_port := 5000, client_rtcp_port := 5001,
       control_socket := Some (example_socket\<lparr>tx :=
         [''RTSP/1.0 200 OK'' @ CRLF @ ''CSeq: 3'' @ CRLF @ ''Session: 12345'' @ CRLF @
          ''Transport: RTP/AVP;unicast;client_port=5000-5001'' @ CRLF @ CRLF]\<rparr>)\<rparr>)"
    unfolding handle_rtsp_setup_def spec_ports spec_cseq
    by (simp add: send_response_def transmit_def string_defs fresh_session_def example_defs)
  have ti: "find_str setup_request_decoy ''Transport: '' 0 = 40"
    by (simp add: setup_request_decoy_def string_defs)
  have te: "find_char setup_request_decoy CR 40 = 88"
    by (simp add: setup_request_decoy_def string_defs)
  have transport: "substr setup_request_decoy (40 + 11) (88 - 40 - 11) =
      Inr ''RTP/AVP;unicast;client_port=5000-5001''"
    by (simp add: setup_request_decoy_def string_defs)
  have decoy_ports: "parse_rtsp_setup_request fresh_session setup_request_decoy =
      Inr (Some (''3'' @ CRLF @ ''User-Agent:'', 1, 2), fresh_session)"
    by (simp add: setup_request_decoy_def parse_rtsp_setup_request_def parse_rtsp_path_def
        string_defs)
  have decoy_cseq: "parse_rtsp_command_sequence setup_request_decoy = Inr (Some 3)"
    by (simp add: setup_request_decoy_def parse_rtsp_command_sequence_def string_defs)
  have decoy_handled: "handle_rtsp_setup fresh_session setup_request_decoy =
     Inr (True, fresh_session\<lparr>client_rtp_port := 1, client_rtcp_port := 2,
       control_socket := Some (example_socket\<lparr>tx :=
         [''RTSP/1.0 200 OK'' @ CRLF @ ''CSeq: 3'' @ CRLF @ ''Session: 12345'' @ CRLF @
          ''Transport: RTP/AVP;unicast;client_port=1-2'' @ CRLF @ CRLF]\<rparr>)\<rparr>)"
    unfolding handle_rtsp_setup_def decoy_ports decoy_cseq
    by (simp add: send_response_def transmit_def string_defs fresh_session_def example_defs)
  have minus_ports: "parse_rtsp_setup_request fresh_session setup_request_minus_one =
      Inr (Some (''-1'' @ CRLF @ ''Transport:'', 5000, 5001), fresh_session)"
    by (simp add: setup_request_minus_one_def parse_rtsp_setup_request_def parse_rtsp_path_def
        string_defs)
  have minus_cseq: "parse_rtsp_command_sequence setup_request_minus_one = Inr (Some (- 1))"
    by (simp add: setup_request_minus_one_def parse_rtsp_command_sequence_def string_defs)
  have minus_handled: "handle_rtsp_setup fresh_session setup_request_minus_one =
     Inr (True, fresh_session\<lparr>client_rtp_port := 5000, client_rtcp_port := 5001,
       control_socket := Some (example_socket\<lparr>tx :=
         [''RTSP/1.0 200 OK'' @ CRLF @ ''Session: 12345'' @ CRLF @
          ''Transport: RTP/AVP;unicast;client_port=5000-5001'' @ CRLF @ CRLF]\<rparr>)\<rparr>)"
    unfolding handle_rtsp_setup_def minus_ports minus_cseq
    by (simp add: send_response_def transmit_def string_defs fresh_session_def example_defs)
  have absent: "find_str (''RTSP/1.0 200 OK'' @ CRLF @ ''Session: 12345'' @ CRLF @
        ''Transport: RTP/AVP;unicast;client_port=5000-5001'' @ CRLF @ CRLF) ''CSeq: '' 0 = npos"
    by (simp add: string_defs)
  show ?thesis
    unfolding spec_dispatch decoy_dispatch minus_dispatch
    using spec_handled ti te transport decoy_cseq decoy_handled minus_ports minus_cseq
      minus_handled absent
    by simp
qed

section \<open>SETUP with TCP transport\<close>

text \<open>
  Claim C4 is not met by the code. The TCP SETUP headers of the spec's scenario 4 are
  answered \<open>461 Unsupported Transport\<close> with no CSeq header and nothing else changes.
  With two spaces after \<open>CSeq:\<close> the Transport header value is the same and contains
  \<open>RTP/AVP/TCP\<close>, but \<open>parse_rtsp_path\<close>, applied to the header block, finds nothing
  between the first two spaces; \<open>parse_rtsp_setup_request\<close> returns false before it
  looks at the Transport header and the request gets no response at all.
\<close>

theorem setup_tcp_transport_silent:
  "handle_rtsp_request example_session
     (''SETUP rtsp://host/stream RTSP/1.0'' @ CRLF @ setup_request_tcp) =
     Inr (False, example_session\<lparr>control_socket := Some (example_socket\<lparr>tx :=
       [''RTSP/1.0 461 Unsupported Transport'' @ CRLF @ CRLF]\<rparr>)\<rparr>) \<and>
   find_str setup_request_tcp_two_spaces ''Transport: '' 0 = 10 \<and>
   find_char setup_request_tcp_two_spaces CR 10 = 56 \<and>
   substr setup_request_tcp_two_spaces (10 + 11) (56 - 10 - 11) =
     Inr ''RTP/AVP/TCP;unicast;interleaved=0-1'' \<and>
   find_str ''RTP/AVP/TCP;unicast;interleaved=0-1'' ''RTP/AVP/TCP'' 0 = 0 \<and>
   parse_rtsp_path setup_request_tcp_two_spaces = Inr [] \<and>
   handle_rtsp_setup example_session setup_request_tcp_two_spaces = Inr (False, example_session) \<and>
   handle_rtsp_request example_session
     (''SETUP rtsp://host/stream RTSP/1.0'' @ CRLF @ setup_request_tcp_two_spaces) =
     Inr (False, example_session)"
proof -
  have "handle_rtsp_request example_session
      (''SETUP rtsp://host/stream RTSP/1.0'' @ CRLF @ setup_request_tcp) =
      handle_rtsp_setup example_session setup_request_tcp"
    by (simp add: handle_rtsp_request_def setup_request_tcp_def string_defs)
  moreover have "parse_rtsp_setup_request example_session setup_request_tcp =
      Inr (None, example_session\<lparr>control_socket := Some (example_socket\<lparr>tx :=
        [''RTSP/1.0 461 Unsupported Transport'' @ CRLF @ CRLF]\<rparr>)\<rparr>)"
    by (simp add: setup_request_tcp_def parse_rtsp_setup_request_def parse_rtsp_path_def
        send_response_def transmit_def string_defs example_defs)
  then have "handle_rtsp_setup example_session setup_request_tcp =
      Inr (False, example_session\<lparr>control_socket := Some (example_socket\<lparr>tx :=
        [''RTSP/1.0 461 Unsupported Transport'' @ CRLF @ CRLF]\<rparr>)\<rparr>)"
    by (simp add: handle_rtsp_setup_def)
  moreover have "find_str setup_request_tcp_two_spaces ''Transport: '' 0 = 10"
    by (simp add: setup_request_tcp_two_spaces_def string_defs)
  moreover have "find_char setup_request_tcp_two_spaces CR 10 = 56"
    by (simp add: setup_request_tcp_two_spaces_def string_defs)
  moreover have "substr setup_request_tcp_two_spaces (10 + 11) (56 - 10 - 11) =
      Inr ''RTP/AVP/TCP;unicast;interleaved=0-1''"
    by (simp add: setup_request_tcp_two_spaces_def string_defs)
  moreover have "find_str ''RTP/AVP/TCP;unicast;interleaved=0-1'' ''RTP/AVP/TCP'' 0 = 0"
    by (simp add: string_defs)
  moreover have path: "parse_rtsp_path setup_request_tcp_two_spaces = Inr []"
    by (simp add: setup_request_tcp_two_spaces_def parse_rtsp_path_def string_defs)
  moreover have
    "handle_rtsp_setup example_session setup_request_tcp_two_spaces = Inr (False, example_session)"
    by (simp add: handle_rtsp_setup_def parse_rtsp_setup_request_def path propagate_def)
  moreover have "handle_rtsp_request example_session
      (''SETUP rtsp://host/stream RTSP/1.0'' @ CRLF @ setup_request_tcp_two_spaces) =
      handle_rtsp_setup example_session setup_request_tcp_two_spaces"
    by (simp add: handle_rtsp_request_def setup_request_tcp_two_spaces_def string_defs)
  ultimately show ?thesis
    by simp
qed

section \<open>The parsers on malformed headers\<close>

text \<open>
  Claim C8 is not met by the code. A CSeq value that does not start with a digit makes
  \<open>std::stoi\<close> throw \<open>std::invalid_argument\<close> out of \<open>parse_rtsp_command_sequence\<close>
  and out of the request handler, a value beyond \<open>int\<close> makes it throw
  \<open>std::out_of_range\<close>, and digits followed by other text are accepted.
\<close>

theorem parse_rtsp_command_sequence_throws:
  "parse_rtsp_command_sequence (''CSeq: abc'' @ CRLF @ CRLF) = Inl invalid_argument \<and>
   handle_rtsp_request example_session
     (''OPTIONS rtsp://host/stream RTSP/1.0'' @ CRLF @ ''CSeq: abc'' @ CRLF @ CRLF) =
     Inl invalid_argument \<and>
   parse_rtsp_command_sequence (''CSeq: 99999999999'' @ CRLF @ CRLF) = Inl out_of_range \<and>
   parse_rtsp_command_sequence (''CSeq: 12abc'' @ CRLF @ CRLF) = Inr (Some 12)"
proof -
  have "parse_rtsp_command_sequence (''CSeq: abc'' @ CRLF @ CRLF) = Inl invalid_argument"
    by (simp add: parse_rtsp_command_sequence_def string_defs)
  moreover have "handle_rtsp_request example_session
      (''OPTIONS rtsp://host/stream RTSP/1.0'' @ CRLF @ ''CSeq: abc'' @ CRLF @ CRLF) =
      Inl invalid_argument"
    by (simp add: handle_rtsp_request_def handle_rtsp_options_def
        parse_rtsp_command_sequence_def string_defs)
  moreover have
    "parse_rtsp_command_sequence (''CSeq: 99999999999'' @ CRLF @ CRLF) = Inl out_of_range"
    by (simp add: parse_rtsp_command_sequence_def string_defs)
  moreover have "parse_rtsp_command_sequence (''CSeq: 12abc'' @ CRLF @ CRLF) = Inr (Some 12)"
    by (simp add: parse_rtsp_command_sequence_def string_defs)
  ultimately show ?thesis
    by simp
qed

text \<open>
  Claim C9 is not met by the code. Without \<open>client_port=\<close> both indices are \<open>npos\<close>,
  the two port strings are the headers from offset 11 and the whole headers, and
  \<open>std::stoi\<close> either throws or reads stray digits as the ports, which are then recorded.
\<close>

theorem parse_rtsp_setup_request_without_client_port:
  "find_str setup_request_no_client_port ''client_port='' 0 = npos \<and>
   parse_rtsp_setup_request example_session setup_request_no_client_port =
     Inl invalid_argument \<and>
   handle_rtsp_request example_session
     (''SETUP rtsp://host/stream RTSP/1.0'' @ CRLF @ setup_request_no_client_port) =
     Inl invalid_argument \<and>
   find_str setup_request_stray_digits ''client_port='' 0 = npos \<and>
   parse_rtsp_setup_request example_session setup_request_stray_digits =
     Inr (Some (''CSeq:'', 77, 1), example_session) \<and>
   handle_rtsp_setup example_session setup_request_stray_digits =
     Inr (True, example_session\<lparr>client_rtp_port := 77, client_rtcp_port := 1,
       control_socket := Some (example_socket\<lparr>tx :=
         [''RTSP/1.0 200 OK'' @ CRLF @ ''CSeq: 42'' @ CRLF @ ''Session: 12345'' @ CRLF @
          ''Transport: RTP/AVP;unicast;client_port=77-1'' @ CRLF @ CRLF]\<rparr>)\<rparr>)"
proof -
  have "find_str setup_request_no_client_port ''client_port='' 0 = npos"
    by (simp add: setup_request_no_client_port_def string_defs)
  moreover have thrown:
    "parse_rtsp_setup_request example_session setup_request_no_client_port =
      Inl invalid_argument"
    by (simp add: setup_request_no_client_port_def parse_rtsp_setup_request_def
        parse_rtsp_path_def string_defs)
  moreover have "handle_rtsp_request example_session
      (''SETUP rtsp://host/stream RTSP/1.0'' @ CRLF @ setup_request_no_client_port) =
      handle_rtsp_setup example_session setup_request_no_client_port"
    by (simp add: handle_rtsp_request_def setup_request_no_client_port_def string_defs)
  moreover have "handle_rtsp_setup example_session setup_request_no_client_port =
      Inl invalid_argument"
    by (simp add: handle_rtsp_setup_def thrown)
  moreover have "find_str setup_request_stray_digits ''client_port='' 0 = npos"
    by (simp add: setup_request_stray_digits_def string_defs)
  moreover have ports:
    "parse_rtsp_setup_request example_session setup_request_stray_digits =
      Inr (Some (''CSeq:'', 77, 1), example_session)"
    by (simp add: setup_request_stray_digits_def parse_rtsp_setup_request_def
        parse_rtsp_path_def string_defs)
  moreover have cseq: "parse_rtsp_command_sequence setup_request_stray_digits = Inr (Some 42)"
    by (simp add: setup_request_stray_digits_def parse_rtsp_command_sequence_def string_defs)
  moreover have "handle_rtsp_setup example_session setup_request_stray_digits =
     Inr (True, example_session\<lparr>client_rtp_port := 77, client_rtcp_port := 1,
       control_socket := Some (example_socket\<lparr>tx :=
         [''RTSP/1.0 200 OK'' @ CRLF @ ''CSeq: 42'' @ CRLF @ ''Session: 12345'' @ CRLF @
          ''Transport: RTP/AVP;unicast;client_port=77-1'' @ CRLF @ CRLF]\<rparr>)\<rparr>)"
    unfolding handle_rtsp_setup_def ports cseq
    by (simp add: send_response_def transmit_def string_defs example_defs)
  ultimately show ?thesis
    by simp
qed

section \<open>DESCRIBE\<close>

lemma describe_response:
  assumes "control_socket s = Some sock"
    and "parse_rtsp_command_sequence request = Inr (Some n)"
    and "path = ''rtsp://'' @ server_address s @ ''/'' @ rtsp_path s"
    and "body = crlf_terminated
           (spec_sdp_lines (to_string_u32 (get_session_id s)) (server_address s) path)"
  shows "handle_rtsp_describe s request =
     Inr (tx_ok sock, s\<lparr>control_socket := Some (sock\<lparr>tx := tx sock @
       [''RTSP/1.0 200 OK'' @ CRLF @
        (if n = - 1 then [] else ''CSeq: '' @ to_string n @ CRLF) @
        ''Content-Type: application/sdp'' @ CRLF @
        ''Content-Base: '' @ path @ CRLF @
        ''Content-Length: '' @ nat_to_string (length body) @ CRLF @
        CRLF @ body]\<rparr>)\<rparr>)"
proof -
  have body: "''v=0'' @ CRLF @
      ''o=- '' @ to_string_u32 (session_id s) @ '' 1 IN IP4 '' @ server_address s @ CRLF @
      ''s=MJPEG Stream'' @ CRLF @ ''i=MJPEG Stream'' @ CRLF @ ''t=0 0'' @ CRLF @
      ''a=control:'' @ path @ CRLF @
      ''a=mimetype:string;'' @ [CHR 0x22] @ ''video/x-motion-jpeg'' @ [CHR 0x22] @ CRLF @
      ''m=video 0 RTP/AVP 26'' @ CRLF @ ''c=IN IP4 0.0.0.0'' @ CRLF @ ''b=AS:256'' @ CRLF @
      ''a=control:'' @ path @ CRLF @ ''a=udp-only'' @ CRLF = body"
    by (simp add: assms(4) crlf_terminated_def spec_sdp_lines_def get_session_id_def)
  have nonempty: "body \<noteq> []"
    using body by auto
  have "handle_rtsp_describe s request =
      send_response s 200 ''OK'' n
        (''Content-Type: application/sdp'' @ CRLF @ ''Content-Base: '' @ path @ CRLF) body"
    unfolding handle_rtsp_describe_def assms(2) Let_def assms(3) [symmetric] body
    by simp
  also have "\<dots> = Inr (tx_ok sock, s\<lparr>control_socket := Some (sock\<lparr>tx := tx sock @
       [''RTSP/1.0 200 OK'' @ CRLF @
        (if n = - 1 then [] else ''CSeq: '' @ to_string n @ CRLF) @
        ''Content-Type: application/sdp'' @ CRLF @
        ''Content-Base: '' @ path @ CRLF @
        ''Content-Length: '' @ nat_to_string (length body) @ CRLF @
        CRLF @ body]\<rparr>)\<rparr>)"
    unfolding send_response_transmits [OF assms(1)] to_string_status_codes cseq_line_cases
    using nonempty by simp
  finally show ?thesis .
qed

lemma example_sdp_spec:
  "example_sdp = crlf_terminated
      (spec_sdp_lines (to_string_u32 (get_session_id example_session))
         (server_address example_session) ''rtsp://host/stream'')"
  by (simp add: example_sdp_def crlf_terminated_def spec_sdp_lines_def get_session_id_def
      example_session_def to_string_u32_def nat_to_string.simps digit_char_def)

lemma example_sdp_length: "nat_to_string (length example_sdp) = ''232''"
proof -
  have "length example_sdp = 232"
    by (simp add: example_sdp_def CRLF_def)
  then show ?thesis
    by (simp add: nat_to_string.simps digit_char_def)
qed

lemma to_string_two: "to_string 2 = ''2''"
  by (simp add: to_string_def nat_to_string.simps digit_char_def)

lemma describe_scenario_cseq:
  "parse_rtsp_command_sequence (''CSeq: 2'' @ CRLF @ CRLF) = Inr (Some 2)"
  by (simp add: parse_rtsp_command_sequence_def string_defs)

lemma example_session_url:
  "''rtsp://host/stream'' =
     ''rtsp://'' @ server_address example_session @ ''/'' @ rtsp_path example_session"
  by (simp add: example_session_def)

text \<open>
  Claim C2, as stated, fails in its count: the session description of the DESCRIBE
  response has twelve lines terminated by CR LF, not thirteen.
\<close>

theorem describe_sdp_line_count_counterexample:
  "handle_rtsp_describe example_session (''CSeq: 2'' @ CRLF @ CRLF) =
     Inr (True, example_session\<lparr>control_socket := Some (example_socket\<lparr>tx :=
       [''RTSP/1.0 200 OK'' @ CRLF @ ''CSeq: 2'' @ CRLF @
        ''Content-Type: application/sdp'' @ CRLF @
        ''Content-Base: rtsp://host/stream'' @ CRLF @
        ''Content-Length: 232'' @ CRLF @ CRLF @ example_sdp]\<rparr>)\<rparr>) \<and>
   count_crlf example_sdp = 12 \<and>
   count_crlf example_sdp \<noteq> 13"
proof -
  have "handle_rtsp_describe example_session (''CSeq: 2'' @ CRLF @ CRLF) =
     Inr (True, example_session\<lparr>control_socket := Some (example_socket\<lparr>tx :=
       [''RTSP/1.0 200 OK'' @ CRLF @ ''CSeq: 2'' @ CRLF @
        ''Content-Type: application/sdp'' @ CRLF @
        ''Content-Base: rtsp://host/stream'' @ CRLF @
        ''Content-Length: 232'' @ CRLF @ CRLF @ example_sdp]\<rparr>)\<rparr>)"
    using describe_response [OF example_session_socket describe_scenario_cseq
        example_session_url example_sdp_spec]
    by (simp add: example_sdp_length to_string_two example_socket_def)
  moreover have "count_crlf example_sdp = 12"
    by (simp add: example_sdp_def CRLF_def CR_def LF_def)
  ultimately show ?thesis
    by simp
qed

text \<open>
  Claim C2, amended. For a DESCRIBE request whose CSeq parses the response is 200 OK with
  the headers \<open>Content-Type: application/sdp\<close>, \<open>Content-Base\<close> with the RTSP URL and
  \<open>Content-Length\<close> with the byte length of the body, and the body is exactly the twelve
  lines of the spec, each terminated by CR LF, with the session id, the server address
  and the RTSP URL in their places.
\<close>

theorem handle_rtsp_describe_sdp:
  assumes "control_socket s = Some sock"
    and "parse_rtsp_command_sequence request = Inr (Some n)"
    and "path = ''rtsp://'' @ server_address s @ ''/'' @ rtsp_path s"
    and "body = crlf_terminated
           (spec_sdp_lines (to_string_u32 (get_session_id s)) (server_address s) path)"
  shows "handle_rtsp_describe s request =
     Inr (tx_ok sock, s\<lparr>control_socket := Some (sock\<lparr>tx := tx sock @
       [''RTSP/1.0 200 OK'' @ CRLF @
        (if n = - 1 then [] else ''CSeq: '' @ to_string n @ CRLF) @
        ''Content-Type: application/sdp'' @ CRLF @
        ''Content-Base: '' @ path @ CRLF @
        ''Content-Length: '' @ nat_to_string (length body) @ CRLF @
        CRLF @ body]\<rparr>)\<rparr>) \<and>
     length (spec_sdp_lines (to_string_u32 (get_session_id s)) (server_address s) path) = 12"
  using describe_response [OF assms] by (simp add: spec_sdp_lines_def)

text \<open>Witness for C2: the DESCRIBE of the spec's scenario 2 on the example session.\<close>

theorem handle_rtsp_describe_sdp_witness:
  "control_socket example_session = Some example_socket \<and>
   parse_rtsp_command_sequence (''CSeq: 2'' @ CRLF @ CRLF) = Inr (Some 2) \<and>
   example_sdp = crlf_terminated (spec_sdp_lines (to_string_u32 (get_session_id example_session))
       (server_address example_session) ''rtsp://host/stream'') \<and>
   handle_rtsp_describe example_session (''CSeq: 2'' @ CRLF @ CRLF) =
     Inr (True, example_session\<lparr>control_socket := Some (example_socket\<lparr>tx :=
       [''RTSP/1.0 200 OK'' @ CRLF @ ''CSeq: 2'' @ CRLF @
        ''Content-Type: application/sdp'' @ CRLF @
        ''Content-Base: rtsp://host/stream'' @ CRLF @
        ''Content-Length: 232'' @ CRLF @ CRLF @ example_sdp]\<rparr>)\<rparr>)"
  using example_session_socket describe_scenario_cseq example_sdp_spec
    handle_rtsp_describe_sdp [OF example_session_socket describe_scenario_cseq
      example_session_url example_sdp_spec]
  by (simp add: example_sdp_length to_string_two example_socket_def)

section \<open>Malformed request lines\<close>
















end
